theory Spec2Isabelle
  imports Complex_Main "HOL-Library.Char_ord" "HOL-Library.List_Lexorder"
begin

section \<open>Python values, as far as \<^verbatim>\<open>ffmpeg_bitrate_stats/__main__.py\<close> uses them\<close>

text \<open>
  A Python float is modelled by its value, a rational, or NaN. A double is a rational, and
  the comparison of two doubles is the comparison of their values; the sum, difference and
  quotient of two doubles is the exact result rounded to a double, and that rounding is a
  parameter of the model (\<open>nearest\<close> below), so that what is proved holds however the
  results are rounded. Overflow to infinity is outside the model. NaN is kept because the
  source stores the string \<^verbatim>\<open>"NaN"\<close> for a missing timestamp and later hands it to
  \<^verbatim>\<open>float()\<close>. Python's int is embedded into the same numbers where the source mixes the
  two (\<^verbatim>\<open>agg_time = 0\<close>, \<^verbatim>\<open>sum(...)\<close>, \<^verbatim>\<open>len(...) / duration\<close>).
\<close>

datatype fl = Num rat | NaN

text \<open>
  The values a frame field or an attribute can hold in the source: a float, a string
  (the raw \<^verbatim>\<open>duration_time\<close> of ffprobe, or the sentinel \<^verbatim>\<open>"NaN"\<close>), or \<^verbatim>\<open>None\<close>.
\<close>

datatype pyval = PFloat fl | PStr string | PNone

text \<open>
  The exceptions the source can end in. \<open>SystemExit code msg\<close> stands for
  \<^verbatim>\<open>print_stderr(msg); sys.exit(code)\<close>.
\<close>

datatype error =
  TypeError | ValueError | KeyError | IndexError | ZeroDivisionError
  | SystemExit int string

definition bindE :: "error + 'a \<Rightarrow> ('a \<Rightarrow> error + 'b) \<Rightarrow> error + 'b" where
  "bindE m f = (case m of Inl e \<Rightarrow> Inl e | Inr x \<Rightarrow> f x)"

text \<open>
  What the program takes from Python and numpy, as parameters of the model:
  \<^verbatim>\<open>float(s)\<close> and \<^verbatim>\<open>int(s)\<close> on a string (\<open>None\<close> where they raise
  \<^verbatim>\<open>ValueError\<close>), the rounding of an exact result to the nearest double, and the
  sums of a list of doubles that the builtin \<^verbatim>\<open>sum\<close> and numpy take (the builtin adds
  from the left, with a compensation in newer versions of Python; numpy adds long arrays
  pairwise). The theorems hold for every choice of them; \<open>exact\<close> below is the choice
  that reads plain decimals and rounds nothing. It is used at concrete inputs only; the
  examples that depend on arithmetic use dyadic numbers, on which doubles round nothing
  either.
\<close>

record builtins =
  str_to_float :: "string \<Rightarrow> fl option"
  str_to_int :: "string \<Rightarrow> int option"
  nearest :: "rat \<Rightarrow> rat"
  float_sum :: "rat list \<Rightarrow> rat"
  array_sum :: "rat list \<Rightarrow> rat"

subsection \<open>Float arithmetic\<close>

fun fl_add :: "builtins \<Rightarrow> fl \<Rightarrow> fl \<Rightarrow> fl" where
  "fl_add py (Num a) (Num b) = Num (nearest py (a + b))"
| "fl_add py _ _ = NaN"

fun fl_sub :: "builtins \<Rightarrow> fl \<Rightarrow> fl \<Rightarrow> fl" where
  "fl_sub py (Num a) (Num b) = Num (nearest py (a - b))"
| "fl_sub py _ _ = NaN"

text \<open>Every comparison with NaN is false.\<close>

fun fl_lt :: "fl \<Rightarrow> fl \<Rightarrow> bool" where
  "fl_lt (Num a) (Num b) = (a < b)"
| "fl_lt _ _ = False"

text \<open>
  \<^verbatim>\<open>a / b\<close> on floats: a zero divisor raises \<^verbatim>\<open>ZeroDivisionError\<close> (also for a NaN
  dividend); otherwise NaN propagates.
\<close>

fun fl_truediv :: "builtins \<Rightarrow> fl \<Rightarrow> fl \<Rightarrow> error + fl" where
  "fl_truediv py a (Num b) =
     (if b = 0 then Inl ZeroDivisionError
      else (case a of Num x \<Rightarrow> Inr (Num (nearest py (x / b))) | NaN \<Rightarrow> Inr NaN))"
| "fl_truediv py a NaN = Inr NaN"

text \<open>\<^verbatim>\<open>a / b\<close> on two ints with \<open>b\<close> not zero: the quotient as a double.\<close>

definition int_truediv :: "builtins \<Rightarrow> int \<Rightarrow> int \<Rightarrow> fl" where
  "int_truediv py a b = Num (nearest py (of_int a / of_int b))"

text \<open>
  \<^verbatim>\<open>round(x, ndigits)\<close>: to the nearest multiple of \<open>10 ^ -ndigits\<close>, a tie to the even
  one; \<^verbatim>\<open>round(nan, ndigits)\<close> is nan. The decimal itself stands for the double next to
  it that Python returns.
\<close>

definition round_half_even :: "rat \<Rightarrow> int" where
  "round_half_even q =
     (let f = \<lfloor>q\<rfloor>; r = q - of_int f
      in if r < 1 / 2 then f else if 1 / 2 < r then f + 1
         else if even f then f else f + 1)"

fun fl_round :: "fl \<Rightarrow> nat \<Rightarrow> fl" where
  "fl_round (Num q) nd = Num (of_int (round_half_even (q * 10 ^ nd)) / 10 ^ nd)"
| "fl_round NaN nd = NaN"

subsection \<open>Operations on dynamically typed values\<close>

text \<open>\<^verbatim>\<open>float(v)\<close>: a float as it is, a string converted, \<^verbatim>\<open>None\<close> refused.\<close>

definition py_float :: "builtins \<Rightarrow> pyval \<Rightarrow> error + fl" where
  "py_float py v =
     (case v of
        PFloat x \<Rightarrow> Inr x
      | PStr s \<Rightarrow> (case str_to_float py s of None \<Rightarrow> Inl ValueError | Some x \<Rightarrow> Inr x)
      | PNone \<Rightarrow> Inl TypeError)"

text \<open>\<^verbatim>\<open>a < b\<close>: floats numerically, two strings lexicographically, anything else raises.\<close>

fun py_lt :: "pyval \<Rightarrow> pyval \<Rightarrow> error + bool" where
  "py_lt (PFloat a) (PFloat b) = Inr (fl_lt a b)"
| "py_lt (PStr s) (PStr t) = Inr (s < t)"
| "py_lt _ _ = Inl TypeError"

text \<open>\<^verbatim>\<open>a - b\<close>: only two floats can be subtracted.\<close>

fun py_sub :: "builtins \<Rightarrow> pyval \<Rightarrow> pyval \<Rightarrow> error + pyval" where
  "py_sub py (PFloat a) (PFloat b) = Inr (PFloat (fl_sub py a b))"
| "py_sub py _ _ = Inl TypeError"

text \<open>\<^verbatim>\<open>round(v, ndigits)\<close> and \<^verbatim>\<open>v / d\<close> for a value that must be a float.\<close>

fun py_round :: "pyval \<Rightarrow> nat \<Rightarrow> error + pyval" where
  "py_round (PFloat x) nd = Inr (PFloat (fl_round x nd))"
| "py_round _ nd = Inl TypeError"

fun py_truediv :: "builtins \<Rightarrow> pyval \<Rightarrow> fl \<Rightarrow> error + fl" where
  "py_truediv py (PFloat x) d = fl_truediv py x d"
| "py_truediv py _ d = Inl TypeError"

text \<open>
  \<^verbatim>\<open>max(xs)\<close> and \<^verbatim>\<open>min(xs)\<close>: \<^verbatim>\<open>ValueError\<close> on an empty list; otherwise the
  first element is kept until a later one compares strictly greater (smaller).
\<close>

fun py_max_from :: "pyval \<Rightarrow> pyval list \<Rightarrow> error + pyval" where
  "py_max_from m [] = Inr m"
| "py_max_from m (x # xs) = bindE (py_lt m x) (\<lambda>b. py_max_from (if b then x else m) xs)"

fun py_max :: "pyval list \<Rightarrow> error + pyval" where
  "py_max [] = Inl ValueError"
| "py_max (x # xs) = py_max_from x xs"

fun py_min_from :: "pyval \<Rightarrow> pyval list \<Rightarrow> error + pyval" where
  "py_min_from m [] = Inr m"
| "py_min_from m (x # xs) = bindE (py_lt x m) (\<lambda>b. py_min_from (if b then x else m) xs)"

fun py_min :: "pyval list \<Rightarrow> error + pyval" where
  "py_min [] = Inl ValueError"
| "py_min (x # xs) = py_min_from x xs"

fun mapE :: "('a \<Rightarrow> error + 'b) \<Rightarrow> 'a list \<Rightarrow> error + 'b list" where
  "mapE f [] = Inr []"
| "mapE f (x # xs) = bindE (f x) (\<lambda>y. bindE (mapE f xs) (\<lambda>ys. Inr (y # ys)))"

text \<open>
  A sum of floats by a summation \<open>summ\<close> of doubles: a NaN among them makes it NaN.
\<close>

fun nums_of :: "fl list \<Rightarrow> rat list option" where
  "nums_of [] = Some []"
| "nums_of (Num q # xs) = map_option ((#) q) (nums_of xs)"
| "nums_of (NaN # xs) = None"

definition fl_sum_by :: "(rat list \<Rightarrow> rat) \<Rightarrow> fl list \<Rightarrow> fl" where
  "fl_sum_by summ xs = (case nums_of xs of Some qs \<Rightarrow> Num (summ qs) | None \<Rightarrow> NaN)"

text \<open>
  \<^verbatim>\<open>sum(...)\<close> over floats: the integer 0 when there is none, else the builtin's sum.
  Over values, \<^verbatim>\<open>sum\<close> raises \<^verbatim>\<open>TypeError\<close> at the first that is no float.
\<close>

definition fl_builtin_sum :: "builtins \<Rightarrow> fl list \<Rightarrow> fl" where
  "fl_builtin_sum py xs = (if xs = [] then Num 0 else fl_sum_by (float_sum py) xs)"

fun as_float :: "pyval \<Rightarrow> error + fl" where
  "as_float (PFloat x) = Inr x"
| "as_float _ = Inl TypeError"

definition py_sum :: "builtins \<Rightarrow> pyval list \<Rightarrow> error + fl" where
  "py_sum py vs = bindE (mapE as_float vs) (\<lambda>xs. Inr (fl_builtin_sum py xs))"

text \<open>
  \<^verbatim>\<open>np.mean(xs)\<close>: nan on an empty list; otherwise the list becomes an array of
  doubles, and the mean is numpy's sum of the array over its length.
\<close>

definition np_mean :: "builtins \<Rightarrow> pyval list \<Rightarrow> error + fl" where
  "np_mean py xs =
     (if xs = [] then Inr NaN
      else bindE (mapE as_float xs) (\<lambda>arr.
             fl_truediv py (fl_sum_by (array_sum py) arr) (Num (of_nat (length xs)))))"

subsection \<open>An instance of the parameters: plain decimals, nothing rounded\<close>

text \<open>
  \<open>float_str\<close> reads an optional sign, digits and an optional fraction, and the word
  nan; \<open>int_str\<close> an optional sign and digits. These are the forms ffprobe prints.
\<close>

definition digit_of :: "char \<Rightarrow> nat option" where
  "digit_of c =
     (let k = (of_char c :: nat) in if 48 \<le> k \<and> k \<le> 57 then Some (k - 48) else None)"

fun digits_val :: "nat \<Rightarrow> string \<Rightarrow> nat option" where
  "digits_val acc [] = Some acc"
| "digits_val acc (c # cs) =
     (case digit_of c of None \<Rightarrow> None | Some d \<Rightarrow> digits_val (10 * acc + d) cs)"

definition unsigned_str :: "string \<Rightarrow> rat option" where
  "unsigned_str s =
     (let ip = takeWhile (\<lambda>c. c \<noteq> CHR ''.'') s;
          fp = drop 1 (dropWhile (\<lambda>c. c \<noteq> CHR ''.'') s)
      in if ip = [] \<and> fp = [] then None
         else (case (digits_val 0 ip, digits_val 0 fp) of
                 (Some i, Some f) \<Rightarrow> Some (of_nat i + of_nat f / 10 ^ length fp)
               | _ \<Rightarrow> None))"

definition float_str :: "string \<Rightarrow> fl option" where
  "float_str s =
     (if s = ''NaN'' \<or> s = ''nan'' then Some NaN
      else (case s of
              CHR ''-'' # r \<Rightarrow> map_option (\<lambda>q. Num (- q)) (unsigned_str r)
            | CHR ''+'' # r \<Rightarrow> map_option Num (unsigned_str r)
            | _ \<Rightarrow> map_option Num (unsigned_str s)))"

definition int_str :: "string \<Rightarrow> int option" where
  "int_str s =
     (case s of
        CHR ''-'' # r \<Rightarrow>
          (if r = [] then None else map_option (\<lambda>k. - int k) (digits_val 0 r))
      | CHR ''+'' # r \<Rightarrow>
          (if r = [] then None else map_option int (digits_val 0 r))
      | _ \<Rightarrow> (if s = [] then None else map_option int (digits_val 0 s)))"

definition exact :: builtins where
  "exact = \<lparr> str_to_float = float_str, str_to_int = int_str,
             nearest = (\<lambda>q. q), float_sum = sum_list, array_sum = sum_list \<rparr>"

section \<open>The data of the program\<close>

text \<open>One entry of ffprobe's \<^verbatim>\<open>packets\<close> array, as \<^verbatim>\<open>json.loads\<close> returns it.\<close>

record packet_info =
  pi_flags :: string
  pi_pts_time :: "string option"
  pi_duration_time :: "string option"
  pi_size :: "string option"

text \<open>
  One element of \<^verbatim>\<open>self.frames\<close>: the dict with the keys \<^verbatim>\<open>n\<close>, \<^verbatim>\<open>frame_type\<close>,
  \<^verbatim>\<open>pts\<close>, \<^verbatim>\<open>size\<close> and \<^verbatim>\<open>duration\<close>.
\<close>

record frame =
  f_n :: int
  f_frame_type :: string
  f_pts :: pyval
  f_size :: int
  f_duration :: pyval

text \<open>The dict \<^verbatim>\<open>ret\<close> that \<^verbatim>\<open>_assemble_bitrate_statistics\<close> builds.\<close>

record summary =
  ret_input_file :: string
  ret_stream_type :: string
  ret_avg_fps :: fl
  ret_num_frames :: nat
  ret_avg_bitrate :: fl
  ret_avg_bitrate_over_chunks :: fl
  ret_max_bitrate :: pyval
  ret_min_bitrate :: pyval
  ret_max_bitrate_factor :: fl
  ret_bitrate_per_chunk :: "pyval list"
  ret_aggregation :: string
  ret_chunk_size :: fl
  ret_duration :: fl

text \<open>
  The attributes of a \<^verbatim>\<open>BitrateStats\<close> object. The three attributes that only
  \<^verbatim>\<open>_assemble_bitrate_statistics\<close> creates are \<open>None\<close> until then, and
  \<open>self_bitrate_stats = None\<close> is the empty dict. \<open>stderr\<close> collects what
  \<^verbatim>\<open>print_stderr\<close> wrote.
\<close>

record bitrate_stats =
  self_input_file :: string
  self_stream_type :: string
  self_aggregation :: string
  self_chunk_size :: fl
  self_dry_run :: bool
  self_verbose :: bool
  self_duration :: fl
  self_fps :: fl
  self_max_bitrate :: pyval
  self_min_bitrate :: pyval
  self_frames :: "frame list"
  self_bitrate_stats :: "summary option"
  self_rounding_factor :: nat
  self_chunks :: "pyval list"
  self_avg_bitrate :: "fl option"
  self_avg_bitrate_over_chunks :: "fl option"
  self_max_bitrate_factor :: "fl option"
  stderr :: "string list"

section \<open>\<^verbatim>\<open>BitrateStats.__init__\<close>\<close>

text \<open>
  The test \<^verbatim>\<open>chunk_size and chunk_size < 0\<close>: a float is true unless it is zero.
\<close>

text \<open>The attribute assignments of the constructor, once its checks have passed.\<close>

definition initial_attributes ::
  "string \<Rightarrow> string \<Rightarrow> string \<Rightarrow> fl \<Rightarrow> bool \<Rightarrow> bool \<Rightarrow> bitrate_stats" where
  "initial_attributes input_file stream_type aggregation chunk_size dry_run verbose =
     \<lparr> self_input_file = input_file, self_stream_type = stream_type,
       self_aggregation = aggregation, self_chunk_size = chunk_size,
       self_dry_run = dry_run, self_verbose = verbose,
       self_duration = Num 0, self_fps = Num 0,
       self_max_bitrate = PFloat (Num 0), self_min_bitrate = PFloat (Num 0),
       self_frames = [], self_bitrate_stats = None,
       self_rounding_factor = 3, self_chunks = [],
       self_avg_bitrate = None, self_avg_bitrate_over_chunks = None,
       self_max_bitrate_factor = None, stderr = [] \<rparr>"

definition BitrateStats_init ::
  "string \<Rightarrow> string \<Rightarrow> string \<Rightarrow> fl \<Rightarrow> bool \<Rightarrow> bool \<Rightarrow> error + bitrate_stats" where
  "BitrateStats_init input_file stream_type aggregation chunk_size dry_run verbose =
     (if stream_type \<notin> set [''audio'', ''video'']
        then Inl (SystemExit 1 ''Stream type must be audio/video'')
      else if aggregation \<notin> set [''time'', ''gop'']
        then Inl (SystemExit 1 ''Wrong aggregation type'')
      else if aggregation = ''gop'' \<and> stream_type = ''audio''
        then Inl (SystemExit 1 ''GOP aggregation for audio does not make sense'')
      else if chunk_size \<noteq> Num 0 \<and> fl_lt chunk_size (Num 0)
        then Inl (SystemExit 1 ''Chunk size must be greater than 0'')
      else Inr (initial_attributes input_file stream_type aggregation chunk_size
                  dry_run verbose))"

section \<open>\<^verbatim>\<open>_calculate_frame_sizes\<close> and \<^verbatim>\<open>_fix_durations\<close>\<close>

text \<open>
  \<^verbatim>\<open>next((x["duration_time"] for x in info if "duration_time" in x.keys()), "NaN")\<close>:
  the raw string of the first packet that has one, unconverted.
\<close>

definition default_duration :: "packet_info list \<Rightarrow> pyval" where
  "default_duration info =
     (case List.map_filter pi_duration_time info of d # _ \<Rightarrow> PStr d | [] \<Rightarrow> PStr ''NaN'')"

definition float_of_str :: "builtins \<Rightarrow> string \<Rightarrow> error + pyval" where
  "float_of_str py s = bindE (py_float py (PStr s)) (\<lambda>x. Inr (PFloat x))"

text \<open>\<^verbatim>\<open>int(packet_info["size"])\<close>: a missing key raises \<^verbatim>\<open>KeyError\<close>.\<close>

definition size_of_packet :: "builtins \<Rightarrow> packet_info \<Rightarrow> error + int" where
  "size_of_packet py p =
     (case pi_size p of
        None \<Rightarrow> Inl KeyError
      | Some s \<Rightarrow> (case str_to_int py s of None \<Rightarrow> Inl ValueError | Some k \<Rightarrow> Inr k))"

text \<open>The loop \<^verbatim>\<open>for packet_info in info\<close>, with \<^verbatim>\<open>idx\<close> as an argument.\<close>

fun packet_loop ::
  "builtins \<Rightarrow> pyval \<Rightarrow> int \<Rightarrow> packet_info list \<Rightarrow> error + frame list" where
  "packet_loop py dd idx [] = Inr []"
| "packet_loop py dd idx (p # ps) =
     (let frame_type = (if pi_flags p = ''K_'' then ''I'' else ''Non-I'')
      in bindE (case pi_pts_time p of
                  Some s \<Rightarrow> float_of_str py s
                | None \<Rightarrow> Inr (PStr ''NaN'')) (\<lambda>pts.
         bindE (case pi_duration_time p of
                  Some s \<Rightarrow> float_of_str py s
                | None \<Rightarrow> Inr dd) (\<lambda>duration.
         bindE (size_of_packet py p) (\<lambda>size.
         bindE (packet_loop py dd (idx + 1) ps) (\<lambda>ret.
           Inr (\<lparr> f_n = idx, f_frame_type = frame_type, f_pts = pts,
                   f_size = size, f_duration = duration \<rparr> # ret))))))"

definition pts_warning :: string where
  "pts_warning = ''Non-monotonically increasing PTS, duration/bitrate may be invalid''"

text \<open>
  \<^verbatim>\<open>_fix_durations\<close>. The first argument is \<^verbatim>\<open>last_duration\<close>; the list is what is
  left of \<^verbatim>\<open>ret\<close> from index \<^verbatim>\<open>i\<close> on. The result carries the warnings printed.
  \<^verbatim>\<open>ret[-1]\<close> on an empty list raises \<^verbatim>\<open>IndexError\<close>.
\<close>

fun fix_durations_from ::
  "builtins \<Rightarrow> pyval \<Rightarrow> frame list \<Rightarrow> error + (frame list \<times> string list)" where
  "fix_durations_from py last_duration [] = Inl IndexError"
| "fix_durations_from py last_duration [f] = Inr ([f\<lparr>f_duration := last_duration\<rparr>], [])"
| "fix_durations_from py last_duration (f # g # rest) =
     bindE (py_lt (f_pts g) (f_pts f)) (\<lambda>b.
     bindE (py_sub py (f_pts g) (f_pts f)) (\<lambda>d.
     bindE (fix_durations_from py d (g # rest)) (\<lambda>(ret, out).
       Inr (f\<lparr>f_duration := d\<rparr> # ret, (if b then [pts_warning] else []) @ out))))"

definition fix_durations ::
  "builtins \<Rightarrow> frame list \<Rightarrow> error + (frame list \<times> string list)" where
  "fix_durations py ret = fix_durations_from py PNone ret"

text \<open>
  \<^verbatim>\<open>_calculate_frame_sizes\<close>, from \<^verbatim>\<open>info = json.loads(stdout)["packets"]\<close> on: the
  call of ffprobe is outside the model and \<open>info\<close> is an argument. With \<^verbatim>\<open>dry_run\<close>
  the method exits before it reads any packet.
\<close>

definition calculate_frame_sizes ::
  "builtins \<Rightarrow> packet_info list \<Rightarrow> bitrate_stats \<Rightarrow> error + bitrate_stats" where
  "calculate_frame_sizes py info s =
     (let s1 = (if self_verbose s
                then s\<lparr>stderr := stderr s @ [''Calculating frame size from '' @ self_input_file s]\<rparr>
                else s)
      in if self_dry_run s
         then Inl (SystemExit 0 ''Aborting prematurely, dry-run specified'')
         else bindE (packet_loop py (default_duration info) 1 info) (\<lambda>ret.
              bindE (if default_duration info = PStr ''NaN''
                     then fix_durations py ret else Inr (ret, [])) (\<lambda>(ret', out).
                Inr (s1\<lparr>self_frames := ret', stderr := stderr s1 @ out\<rparr>))))"

section \<open>\<^verbatim>\<open>_calculate_duration\<close> and \<^verbatim>\<open>_calculate_fps\<close>\<close>

definition calculate_duration :: "builtins \<Rightarrow> bitrate_stats \<Rightarrow> error + bitrate_stats" where
  "calculate_duration py s =
     bindE (py_sum py (map f_duration (self_frames s))) (\<lambda>t.
       Inr (s\<lparr>self_duration := fl_round t 2\<rparr>))"

definition calculate_fps :: "builtins \<Rightarrow> bitrate_stats \<Rightarrow> error + bitrate_stats" where
  "calculate_fps py s =
     bindE (fl_truediv py (Num (of_nat (length (self_frames s)))) (self_duration s)) (\<lambda>x.
       Inr (s\<lparr>self_fps := x\<rparr>))"

section \<open>\<^verbatim>\<open>_collect_chunks\<close> and \<^verbatim>\<open>_bitrate_for_frame_list\<close>\<close>

text \<open>
  The GOP loop. \<open>acc\<close> is \<^verbatim>\<open>aggregation_chunks\<close> and \<open>curr_list\<close> the list
  of that name; the two tests on the frame type follow each other as in the source, and
  the first equation is the flush after the loop.
\<close>

fun gop_loop :: "frame list list \<Rightarrow> frame list \<Rightarrow> frame list \<Rightarrow> frame list list" where
  "gop_loop acc curr_list [] = acc @ [curr_list]"
| "gop_loop acc curr_list (f # fs) =
     (let curr_list1 = (if f_frame_type f \<noteq> ''I'' then curr_list @ [f] else curr_list)
      in if f_frame_type f = ''I''
         then gop_loop (if curr_list1 \<noteq> [] then acc @ [curr_list1] else acc) [f] fs
         else gop_loop acc curr_list1 fs)"

text \<open>The per-time loop; \<open>agg\<close> is \<^verbatim>\<open>agg_time\<close>.\<close>

fun time_loop ::
  "builtins \<Rightarrow> fl \<Rightarrow> frame list list \<Rightarrow> frame list \<Rightarrow> fl \<Rightarrow> frame list
   \<Rightarrow> error + frame list list" where
  "time_loop py chunk_size acc curr_list agg [] = Inr (acc @ [curr_list])"
| "time_loop py chunk_size acc curr_list agg (f # fs) =
     (if fl_lt agg chunk_size
      then bindE (py_float py (f_duration f)) (\<lambda>d.
             time_loop py chunk_size acc (curr_list @ [f]) (fl_add py agg d) fs)
      else bindE (py_float py (f_duration f)) (\<lambda>d.
             time_loop py chunk_size (if curr_list \<noteq> [] then acc @ [curr_list] else acc) [f] d fs))"

text \<open>The list \<^verbatim>\<open>aggregation_chunks\<close> as it stands before the comprehension filters it.\<close>

definition aggregation_chunks ::
  "builtins \<Rightarrow> bitrate_stats \<Rightarrow> error + frame list list" where
  "aggregation_chunks py s =
     (if self_aggregation s = ''gop''
      then Inr (gop_loop [] [] (self_frames s))
      else time_loop py (self_chunk_size s) [] [] (Num 0) (self_frames s))"

text \<open>
  \<^verbatim>\<open>sum(float(curr) - float(prev) for curr, prev in zip(times[1:], times))\<close>: the
  differences in their order, then their sum.
\<close>

fun deltas :: "builtins \<Rightarrow> (pyval \<times> pyval) list \<Rightarrow> error + fl list" where
  "deltas py [] = Inr []"
| "deltas py ((curr_t, prev_t) # ps) =
     bindE (py_float py curr_t) (\<lambda>c.
     bindE (py_float py prev_t) (\<lambda>p.
     bindE (deltas py ps) (\<lambda>ds. Inr (fl_sub py c p # ds))))"

definition sum_delta_time :: "builtins \<Rightarrow> frame list \<Rightarrow> error + fl" where
  "sum_delta_time py frame_list =
     (let times = map f_pts frame_list
      in bindE (deltas py (zip (tl times) times)) (\<lambda>ds. Inr (fl_builtin_sum py ds)))"

text \<open>A list of fewer than two frames falls through the \<^verbatim>\<open>if\<close> and returns \<^verbatim>\<open>None\<close>.\<close>

definition bitrate_for_frame_list ::
  "builtins \<Rightarrow> frame list \<Rightarrow> error + pyval" where
  "bitrate_for_frame_list py frame_list =
     (if length frame_list > 1
      then (let size = sum_list (map f_size frame_list)
            in bindE (sum_delta_time py frame_list) (\<lambda>sdt.
               bindE (fl_truediv py (int_truediv py (size * 8) 1000) sdt) (\<lambda>bitrate.
                 Inr (PFloat bitrate))))
      else Inr PNone)"

text \<open>
  \<^verbatim>\<open>_collect_chunks\<close> returns the cached list when it is not empty; otherwise it
  computes, stores and returns the bitrates of the chunks of more than one frame.
\<close>

definition collect_chunks ::
  "builtins \<Rightarrow> bitrate_stats \<Rightarrow> error + (pyval list \<times> bitrate_stats)" where
  "collect_chunks py s =
     (if length (self_chunks s) \<noteq> 0 then Inr (self_chunks s, s)
      else (let s1 = (if self_verbose s
                      then s\<lparr>stderr := stderr s @ [''Collecting chunks for bitrate calculation'']\<rparr>
                      else s)
            in bindE (aggregation_chunks py s1) (\<lambda>chunks.
               bindE (mapE (bitrate_for_frame_list py)
                        (filter (\<lambda>x. length x > 1) chunks)) (\<lambda>brs.
                 Inr (brs, s1\<lparr>self_chunks := brs\<rparr>)))))"

section \<open>\<^verbatim>\<open>_calculate_max_min_bitrate\<close>, \<^verbatim>\<open>_assemble_bitrate_statistics\<close>\<close>

definition calculate_max_min_bitrate ::
  "builtins \<Rightarrow> bitrate_stats \<Rightarrow> error + bitrate_stats" where
  "calculate_max_min_bitrate py s =
     bindE (collect_chunks py s) (\<lambda>(c1, s1).
     bindE (py_max c1) (\<lambda>mx.
     bindE (collect_chunks py (s1\<lparr>self_max_bitrate := mx\<rparr>)) (\<lambda>(c2, s2).
     bindE (py_min c2) (\<lambda>mn.
       Inr (s2\<lparr>self_min_bitrate := mn\<rparr>)))))"

definition assemble_bitrate_statistics ::
  "builtins \<Rightarrow> bitrate_stats \<Rightarrow> error + bitrate_stats" where
  "assemble_bitrate_statistics py s =
     bindE (fl_truediv py (int_truediv py (sum_list (map f_size (self_frames s)) * 8) 1000)
              (self_duration s)) (\<lambda>avg_bitrate.
     bindE (collect_chunks py s) (\<lambda>(c1, s1).
     bindE (np_mean py c1) (\<lambda>avg_bitrate_over_chunks.
     bindE (py_truediv py (self_max_bitrate s1) avg_bitrate) (\<lambda>max_bitrate_factor.
     let s2 = s1\<lparr>self_avg_bitrate := Some avg_bitrate,
                  self_avg_bitrate_over_chunks := Some avg_bitrate_over_chunks,
                  self_max_bitrate_factor := Some max_bitrate_factor\<rparr>;
         rf = self_rounding_factor s2
     in bindE (py_round (self_max_bitrate s2) rf) (\<lambda>max_r.
        bindE (py_round (self_min_bitrate s2) rf) (\<lambda>min_r.
        bindE (collect_chunks py s2) (\<lambda>(c2, s3).
        bindE (mapE (\<lambda>b. py_round b rf) c2) (\<lambda>per_chunk.
          Inr (s3\<lparr>self_bitrate_stats := Some
                 \<lparr> ret_input_file = self_input_file s3,
                   ret_stream_type = self_stream_type s3,
                   ret_avg_fps = fl_round (self_fps s3) rf,
                   ret_num_frames = length (self_frames s3),
                   ret_avg_bitrate = fl_round avg_bitrate rf,
                   ret_avg_bitrate_over_chunks = fl_round avg_bitrate_over_chunks rf,
                   ret_max_bitrate = max_r,
                   ret_min_bitrate = min_r,
                   ret_max_bitrate_factor = fl_round max_bitrate_factor rf,
                   ret_bitrate_per_chunk = per_chunk,
                   ret_aggregation = self_aggregation s3,
                   ret_chunk_size = self_chunk_size s3,
                   ret_duration = fl_round (self_duration s3) rf \<rparr>\<rparr>)))))))))"

section \<open>\<^verbatim>\<open>calculate_statistics\<close>\<close>

definition calculate_statistics ::
  "builtins \<Rightarrow> packet_info list \<Rightarrow> bitrate_stats \<Rightarrow> error + bitrate_stats" where
  "calculate_statistics py info s =
     bindE (calculate_frame_sizes py info s) (\<lambda>s1.
     bindE (calculate_duration py s1) (\<lambda>s2.
     bindE (calculate_fps py s2) (\<lambda>s3.
     bindE (calculate_max_min_bitrate py s3) (\<lambda>s4.
       assemble_bitrate_statistics py s4))))"

section \<open>Notions used to state the properties\<close>






text \<open>
  What the repair pass is expected to compute from float timestamps: the forward
  differences, the last of them once more (\<^verbatim>\<open>None\<close> if there is none), and one
  warning for each adjacent pair whose timestamp strictly decreases.
\<close>

definition pts_of :: "frame \<Rightarrow> fl" where
  "pts_of f = (case f_pts f of PFloat x \<Rightarrow> x | _ \<Rightarrow> NaN)"

definition pts_deltas :: "builtins \<Rightarrow> frame list \<Rightarrow> pyval list" where
  "pts_deltas py fs =
     map (\<lambda>(f, g). PFloat (fl_sub py (pts_of g) (pts_of f))) (zip fs (tl fs))"

definition repaired :: "builtins \<Rightarrow> frame list \<Rightarrow> frame list" where
  "repaired py fs =
     map (\<lambda>(f, d). f\<lparr>f_duration := d\<rparr>)
       (zip fs (pts_deltas py fs @ [last (PNone # pts_deltas py fs)]))"

definition decreasing_pairs :: "frame list \<Rightarrow> (frame \<times> frame) list" where
  "decreasing_pairs fs = filter (\<lambda>(f, g). fl_lt (pts_of g) (pts_of f)) (zip fs (tl fs))"

subsection \<open>Concrete inputs\<close>

definition example_stats :: "string \<Rightarrow> fl \<Rightarrow> bitrate_stats" where
  "example_stats aggregation chunk_size =
     initial_attributes ''input.mp4'' ''video'' aggregation chunk_size False False"

definition example_packet :: "string \<Rightarrow> string \<Rightarrow> string option \<Rightarrow> packet_info" where
  "example_packet flags pts_time duration_time =
     \<lparr> pi_flags = flags, pi_pts_time = Some pts_time,
       pi_duration_time = duration_time, pi_size = Some ''1000'' \<rparr>"

definition example_frame :: "int \<Rightarrow> string \<Rightarrow> rat \<Rightarrow> pyval \<Rightarrow> frame" where
  "example_frame k t p d =
     \<lparr> f_n = k, f_frame_type = t, f_pts = PFloat (Num p), f_size = 1000, f_duration = d \<rparr>"

section \<open>Basic facts about the model\<close>

lemma bindE_Inl [simp]: "bindE (Inl e) f = Inl e"
  by (simp add: bindE_def)

lemma bindE_Inr [simp]: "bindE (Inr x) f = f x"
  by (simp add: bindE_def)

lemma bindE_eq_Inr: "bindE m f = Inr y \<longleftrightarrow> (\<exists>x. m = Inr x \<and> f x = Inr y)"
  by (cases m) simp_all

lemmas parse_defs = float_str_def unsigned_str_def int_str_def digit_of_def

lemmas example_defs =
  example_stats_def example_packet_def example_frame_def initial_attributes_def exact_def

lemmas run_defs =
  calculate_statistics_def calculate_frame_sizes_def calculate_duration_def
  calculate_fps_def calculate_max_min_bitrate_def assemble_bitrate_statistics_def
  collect_chunks_def aggregation_chunks_def bitrate_for_frame_list_def sum_delta_time_def
  np_mean_def fl_sum_by_def fl_builtin_sum_def int_truediv_def py_sum_def default_duration_def
  float_of_str_def size_of_packet_def fix_durations_def py_float_def List.map_filter_def

subsection \<open>Rounding\<close>

lemma round_half_even_near:
  assumes lo: "of_int k - 1 / 2 < q" and hi: "q < of_int k + 1 / 2"
  shows "round_half_even q = k"
proof -
  have "\<lfloor>q\<rfloor> = k \<or> \<lfloor>q\<rfloor> = k - 1"
  proof -
    have "of_int (k - 1) \<le> q" using lo by simp
    then have a: "k - 1 \<le> \<lfloor>q\<rfloor>" by (simp add: le_floor_iff)
    have "q < of_int (k + 1)" using hi by simp
    then have "of_int \<lfloor>q\<rfloor> < (of_int (k + 1) :: rat)"
      using of_int_floor_le [of q] by linarith
    then have "\<lfloor>q\<rfloor> < k + 1" by (simp only: of_int_less_iff)
    with a show ?thesis by linarith
  qed
  then show ?thesis
  proof
    assume f: "\<lfloor>q\<rfloor> = k"
    then have "of_int k \<le> q" using of_int_floor_le [of q] by simp
    with hi f show ?thesis by (simp add: round_half_even_def Let_def)
  next
    assume f: "\<lfloor>q\<rfloor> = k - 1"
    then have "q < of_int k" using floor_correct [of q] by simp
    with lo f show ?thesis by (simp add: round_half_even_def Let_def)
  qed
qed

lemma round_half_even_of_int [simp]: "round_half_even (of_int k) = k"
  by (rule round_half_even_near) simp_all

text \<open>Rounding a rounded number to at least as many places changes nothing.\<close>

lemma fl_round_again: "n \<le> m \<Longrightarrow> fl_round (fl_round x n) m = fl_round x n"
proof (cases x)
  case (Num q)
  assume nm: "n \<le> m"
  define k where "k = round_half_even (q * 10 ^ n)"
  from nm obtain d where m: "m = n + d" using le_Suc_ex by blast
  have e1: "(of_int k / 10 ^ n) * 10 ^ m = (of_int (k * 10 ^ d) :: rat)"
    by (simp add: m power_add)
  have e2: "(of_int (k * 10 ^ d) :: rat) / 10 ^ m = of_int k / 10 ^ n"
    by (simp add: m power_add)
  have "fl_round (fl_round x n) m = fl_round (Num (of_int k / 10 ^ n)) m"
    by (simp add: Num k_def)
  also have "\<dots> = Num (of_int (round_half_even (of_int (k * 10 ^ d))) / 10 ^ m)"
    by (simp only: fl_round.simps e1)
  also have "\<dots> = Num (of_int k / 10 ^ n)"
    by (simp only: round_half_even_of_int e2)
  also have "\<dots> = fl_round x n"
    by (simp add: Num k_def)
  finally show ?thesis .
next
  case NaN
  then show ?thesis by simp
qed

section \<open>The chunker\<close>

subsection \<open>The chunks partition the frames\<close>

lemma gop_loop_concat: "concat (gop_loop acc curr_list fs) = concat acc @ curr_list @ fs"
  by (induction fs arbitrary: acc curr_list) (simp_all add: Let_def)

lemma time_loop_concat:
  "time_loop py cs acc curr_list agg fs = Inr chunks \<Longrightarrow>
   concat chunks = concat acc @ curr_list @ fs"
proof (induction fs arbitrary: acc curr_list agg)
  case Nil
  then show ?case by auto
next
  case (Cons f fs)
  from Cons.prems obtain d where d: "py_float py (f_duration f) = Inr d"
    by (auto simp: bindE_eq_Inr split: if_splits)
  show ?case
  proof (cases "fl_lt agg cs")
    case True
    with Cons.prems d
    have "time_loop py cs acc (curr_list @ [f]) (fl_add py agg d) fs = Inr chunks"
      by simp
    from Cons.IH [OF this] show ?thesis by simp
  next
    case False
    with Cons.prems d
    have "time_loop py cs (if curr_list \<noteq> [] then acc @ [curr_list] else acc) [f] d fs
          = Inr chunks"
      by simp
    from Cons.IH [OF this] show ?thesis by simp
  qed
qed

lemma time_loop_returns:
  "\<forall>f \<in> set fs. \<exists>x. py_float py (f_duration f) = Inr x \<Longrightarrow>
   \<exists>chunks. time_loop py cs acc curr_list agg fs = Inr chunks"
proof (induction fs arbitrary: acc curr_list agg)
  case Nil
  show ?case by simp
next
  case (Cons f fs)
  then obtain d where d: "py_float py (f_duration f) = Inr d" by auto
  from Cons
  have IH: "\<And>acc curr_list agg. \<exists>chunks. time_loop py cs acc curr_list agg fs = Inr chunks"
    by simp
  show ?case using d IH by simp
qed

text \<open>
  C1. In both aggregation modes the chunk lists, as they stand before the filter on
  their length, concatenate to the frames in their order: whenever the chunker returns,
  and it returns in GOP mode always and in time mode as soon as \<^verbatim>\<open>float()\<close> accepts
  the duration of every frame.
\<close>

theorem chunker_partition:
  "(\<forall>chunks. aggregation_chunks py s = Inr chunks \<longrightarrow> concat chunks = self_frames s) \<and>
   ((self_aggregation s = ''gop'' \<or>
     (\<forall>f \<in> set (self_frames s). \<exists>x. py_float py (f_duration f) = Inr x)) \<longrightarrow>
    (\<exists>chunks. aggregation_chunks py s = Inr chunks))"
proof (intro conjI allI impI)
  fix chunks
  assume "aggregation_chunks py s = Inr chunks"
  then show "concat chunks = self_frames s"
    by (auto simp: aggregation_chunks_def gop_loop_concat dest: time_loop_concat
        split: if_splits)
next
  assume "self_aggregation s = ''gop'' \<or>
     (\<forall>f \<in> set (self_frames s). \<exists>x. py_float py (f_duration f) = Inr x)"
  then show "\<exists>chunks. aggregation_chunks py s = Inr chunks"
    using time_loop_returns [of "self_frames s" py]
    by (auto simp: aggregation_chunks_def)
qed

theorem chunker_partition_witness:
  "\<exists>chunks.
     aggregation_chunks exact
       ((example_stats ''time'' (Num 1))\<lparr>self_frames :=
          [example_frame 1 ''I'' 0 (PFloat (Num (1 / 2))),
           example_frame 2 ''Non-I'' (1 / 2) (PStr ''0.5''),
           example_frame 3 ''Non-I'' 1 (PFloat (Num (1 / 2)))]\<rparr>) = Inr chunks \<and>
     concat chunks =
       [example_frame 1 ''I'' 0 (PFloat (Num (1 / 2))),
        example_frame 2 ''Non-I'' (1 / 2) (PStr ''0.5''),
        example_frame 3 ''Non-I'' 1 (PFloat (Num (1 / 2)))]"
  using chunker_partition [of exact
      "(example_stats ''time'' (Num 1))\<lparr>self_frames :=
          [example_frame 1 ''I'' 0 (PFloat (Num (1 / 2))),
           example_frame 2 ''Non-I'' (1 / 2) (PStr ''0.5''),
           example_frame 3 ''Non-I'' 1 (PFloat (Num (1 / 2)))]\<rparr>"]
  by (auto simp: py_float_def parse_defs example_defs)

subsection \<open>The time window\<close>








section \<open>The constructor\<close>

lemma init_rejects_negative:
  "c < 0 \<Longrightarrow> \<exists>msg. BitrateStats_init input_file stream_type aggregation (Num c) dry_run verbose
                   = Inl (SystemExit 1 msg)"
  by (simp add: BitrateStats_init_def)

lemma init_accepts_positive:
  "0 < c \<Longrightarrow> stream_type = ''video'' \<or> stream_type = ''audio'' \<and> aggregation = ''time'' \<Longrightarrow>
   aggregation = ''time'' \<or> aggregation = ''gop'' \<Longrightarrow>
   BitrateStats_init input_file stream_type aggregation (Num c) dry_run verbose
     = Inr (initial_attributes input_file stream_type aggregation (Num c) dry_run verbose)"
  by (auto simp: BitrateStats_init_def)

text \<open>
  C9. A chunk size of zero passes the constructor: the test is
  \<^verbatim>\<open>chunk_size and chunk_size < 0\<close>, while the message it prints reads
  \<^verbatim>\<open>Chunk size must be greater than 0\<close>.
\<close>

theorem init_accepts_zero_chunk_size:
  "BitrateStats_init ''input.mp4'' ''video'' ''time'' (Num 0) False False
     = Inr (example_stats ''time'' (Num 0))"
  by (simp add: BitrateStats_init_def example_stats_def)

section \<open>The normalizer\<close>

text \<open>
  C3. Two packet lists on which \<^verbatim>\<open>_calculate_frame_sizes\<close> returns a frame whose
  duration is no number. When only the first packet has a \<^verbatim>\<open>duration_time\<close>, the
  second frame gets the unconverted string; a single packet without
  \<^verbatim>\<open>duration_time\<close> keeps \<^verbatim>\<open>None\<close> from the repair pass. In both cases
  \<^verbatim>\<open>_calculate_duration\<close> then raises \<^verbatim>\<open>TypeError\<close>.
\<close>

theorem normalizer_non_numeric_duration:
  "map_sum id (map f_duration \<circ> self_frames)
     (calculate_frame_sizes exact
        [example_packet ''K_'' ''0.000000'' (Some ''0.040000''),
         example_packet ''__'' ''0.040000'' None]
        (example_stats ''time'' (Num 1)))
     = Inr [PFloat (Num (1 / 25)), PStr ''0.040000''] \<and>
   calculate_statistics exact
        [example_packet ''K_'' ''0.000000'' (Some ''0.040000''),
         example_packet ''__'' ''0.040000'' None]
        (example_stats ''time'' (Num 1)) = Inl TypeError \<and>
   map_sum id (map f_duration \<circ> self_frames)
     (calculate_frame_sizes exact
        [example_packet ''K_'' ''0.000000'' None]
        (example_stats ''time'' (Num 1)))
     = Inr [PNone] \<and>
   calculate_statistics exact
        [example_packet ''K_'' ''0.000000'' None]
        (example_stats ''time'' (Num 1)) = Inl TypeError"
  by (simp add: run_defs parse_defs example_defs)

text \<open>
  Where the durations are numbers after all: when every packet declares a duration, and
  when none does and there are at least two packets.
\<close>

lemma packet_loop_declared:
  "packet_loop py dd idx info = Inr ret \<Longrightarrow>
   \<forall>p \<in> set info. pi_duration_time p \<noteq> None \<Longrightarrow>
   \<forall>f \<in> set ret. \<exists>x. f_duration f = PFloat x"
proof (induction info arbitrary: idx ret)
  case Nil
  then show ?case by simp
next
  case (Cons p ps)
  from Cons.prems(2) obtain d where d: "pi_duration_time p = Some d" by auto
  from Cons.prems(1) d obtain pts x size rest
    where "float_of_str py d = Inr x"
      and rest: "packet_loop py dd (idx + 1) ps = Inr rest"
      and ret: "ret = \<lparr> f_n = idx, f_frame_type = (if pi_flags p = ''K_'' then ''I'' else ''Non-I''),
                       f_pts = pts, f_size = size, f_duration = x \<rparr> # rest"
    by (auto simp: bindE_eq_Inr Let_def)
  then obtain y where "x = PFloat y"
    by (auto simp: float_of_str_def bindE_eq_Inr)
  moreover have "\<forall>f \<in> set rest. \<exists>x. f_duration f = PFloat x"
    using Cons.IH [OF rest] Cons.prems(2) by simp
  ultimately show ?case using ret by simp
qed

lemma normalizer_all_declared:
  assumes "calculate_frame_sizes py info s = Inr t"
    and "\<forall>p \<in> set info. pi_duration_time p \<noteq> None"
    and "default_duration info \<noteq> PStr ''NaN''"
  shows "\<forall>f \<in> set (self_frames t). \<exists>x. f_duration f = PFloat x"
proof -
  from assms(1,3) obtain ret
    where "packet_loop py (default_duration info) 1 info = Inr ret"
      and "self_frames t = ret"
    by (auto simp: calculate_frame_sizes_def bindE_eq_Inr Let_def split: if_splits)
  then show ?thesis using packet_loop_declared assms(2) by blast
qed

lemma fix_durations_from_float:
  "fix_durations_from py l fs = Inr (ret, out) \<Longrightarrow>
   (\<exists>x. l = PFloat x) \<or> 2 \<le> length fs \<Longrightarrow>
   \<forall>f \<in> set ret. \<exists>x. f_duration f = PFloat x"
proof (induction py l fs arbitrary: ret out rule: fix_durations_from.induct)
  case (1 py l)
  then show ?case by simp
next
  case (2 py l f)
  then show ?case by auto
next
  case (3 py l f g rest)
  from "3.prems"(1) obtain b d ret' out'
    where d: "py_sub py (f_pts g) (f_pts f) = Inr d"
      and run: "fix_durations_from py d (g # rest) = Inr (ret', out')"
      and ret: "ret = f\<lparr>f_duration := d\<rparr> # ret'"
    by (auto simp: bindE_eq_Inr)
  from d obtain x where x: "d = PFloat x"
    by (cases "f_pts g"; cases "f_pts f") auto
  have "\<forall>f \<in> set ret'. \<exists>x. f_duration f = PFloat x"
    using "3.IH" [OF run] x by simp
  then show ?case using ret x by simp
qed

lemma packet_loop_length:
  "packet_loop py dd idx info = Inr ret \<Longrightarrow> length ret = length info"
  by (induction info arbitrary: idx ret) (auto simp: bindE_eq_Inr Let_def)

lemma normalizer_none_declared:
  assumes "calculate_frame_sizes py info s = Inr t"
    and "\<forall>p \<in> set info. pi_duration_time p = None"
    and "2 \<le> length info"
  shows "\<forall>f \<in> set (self_frames t). \<exists>x. f_duration f = PFloat x"
proof -
  have "List.map_filter pi_duration_time info = []"
    using assms(2) by (simp add: List.map_filter_def filter_empty_conv)
  then have dd: "default_duration info = PStr ''NaN''"
    by (simp add: default_duration_def)
  with assms(1) obtain ret out
    where loop: "packet_loop py (PStr ''NaN'') 1 info = Inr ret"
      and rep: "fix_durations py ret = Inr (self_frames t, out)"
    by (auto simp: calculate_frame_sizes_def bindE_eq_Inr Let_def split: if_splits)
  have "2 \<le> length ret"
    using packet_loop_length [OF loop] assms(3) by simp
  then show ?thesis
    using fix_durations_from_float [of py PNone ret "self_frames t" out] rep
    by (simp add: fix_durations_def)
qed

subsection \<open>The repair pass\<close>

lemma fix_durations_from_floats:
  assumes "fs \<noteq> []" and "\<forall>f \<in> set fs. \<exists>x. f_pts f = PFloat x"
  shows "fix_durations_from py l fs =
           Inr (map (\<lambda>(f, d). f\<lparr>f_duration := d\<rparr>)
                  (zip fs (pts_deltas py fs @ [last (l # pts_deltas py fs)])),
                map (\<lambda>p. pts_warning) (decreasing_pairs fs))"
  using assms
proof (induction py l fs rule: fix_durations_from.induct)
  case (1 py l)
  then show ?case by simp
next
  case (2 py l f)
  show ?case by (simp add: pts_deltas_def decreasing_pairs_def)
next
  case (3 py l f g rest)
  from "3.prems" obtain x y where x: "f_pts f = PFloat x" and y: "f_pts g = PFloat y"
    by auto
  have d: "pts_deltas py (f # g # rest) = PFloat (fl_sub py y x) # pts_deltas py (g # rest)"
    by (simp add: pts_deltas_def pts_of_def x y)
  have w: "decreasing_pairs (f # g # rest) =
             (if fl_lt y x then [(f, g)] else []) @ decreasing_pairs (g # rest)"
    by (simp add: decreasing_pairs_def pts_of_def x y)
  have rest: "g # rest \<noteq> []" "\<forall>f \<in> set (g # rest). \<exists>x. f_pts f = PFloat x"
    using "3.prems" by simp_all
  show ?case
    using "3.IH" [OF rest] by (simp add: x y d w)
qed

lemma nth_repaired:
  assumes "Suc i < length fs"
  shows "f_duration (repaired py fs ! i) = PFloat (fl_sub py (pts_of (fs ! Suc i)) (pts_of (fs ! i)))"
proof -
  have len: "length (pts_deltas py fs) = length fs - 1"
    by (simp add: pts_deltas_def)
  have i: "i < length (pts_deltas py fs)"
    using assms len by simp
  have "repaired py fs ! i = (fs ! i)\<lparr>f_duration := (pts_deltas py fs @ [last (PNone # pts_deltas py fs)]) ! i\<rparr>"
    using assms len by (simp add: repaired_def)
  moreover have "(pts_deltas py fs @ [last (PNone # pts_deltas py fs)]) ! i = pts_deltas py fs ! i"
    using i by (simp add: nth_append)
  moreover have "pts_deltas py fs ! i = PFloat (fl_sub py (pts_of (fs ! Suc i)) (pts_of (fs ! i)))"
    using assms by (simp add: pts_deltas_def nth_tl)
  ultimately show ?thesis by simp
qed

text \<open>
  C4, as the code has it. On a non-empty list of frames with float timestamps the repair
  pass raises nothing; it assigns every frame but the last the difference to the next
  timestamp, whatever its sign, and prints one warning for each adjacent pair whose
  timestamp strictly decreases, and none for a pair of equal timestamps.
\<close>

theorem repair_pass:
  assumes "fs \<noteq> []" and "\<forall>f \<in> set fs. \<exists>x. f_pts f = PFloat x"
  shows "fix_durations py fs = Inr (repaired py fs, map (\<lambda>p. pts_warning) (decreasing_pairs fs)) \<and>
         length (repaired py fs) = length fs \<and>
         (\<forall>i. Suc i < length fs \<longrightarrow>
            f_duration (repaired py fs ! i)
              = PFloat (fl_sub py (pts_of (fs ! Suc i)) (pts_of (fs ! i)))) \<and>
         set (decreasing_pairs fs) =
           {(f, g). (f, g) \<in> set (zip fs (tl fs)) \<and> fl_lt (pts_of g) (pts_of f)}"
proof (intro conjI allI impI)
  show "fix_durations py fs = Inr (repaired py fs, map (\<lambda>p. pts_warning) (decreasing_pairs fs))"
    using fix_durations_from_floats [OF assms] by (simp add: fix_durations_def repaired_def)
  show "length (repaired py fs) = length fs"
    by (simp add: repaired_def pts_deltas_def)
  show "set (decreasing_pairs fs) =
           {(f, g). (f, g) \<in> set (zip fs (tl fs)) \<and> fl_lt (pts_of g) (pts_of f)}"
    by (auto simp: decreasing_pairs_def)
next
  fix i
  assume "Suc i < length fs"
  then show "f_duration (repaired py fs ! i)
               = PFloat (fl_sub py (pts_of (fs ! Suc i)) (pts_of (fs ! i)))"
    by (rule nth_repaired)
qed

theorem repair_pass_witness:
  "fix_durations exact
     [example_frame 1 ''I'' 1 (PStr ''NaN''), example_frame 2 ''Non-I'' (1 / 2) (PStr ''NaN'')]
   = Inr ([example_frame 1 ''I'' 1 (PFloat (Num (- (1 / 2)))),
           example_frame 2 ''Non-I'' (1 / 2) (PFloat (Num (- (1 / 2))))],
          [pts_warning])"
  using repair_pass [of
      "[example_frame 1 ''I'' 1 (PStr ''NaN''), example_frame 2 ''Non-I'' (1 / 2) (PStr ''NaN'')]"
      exact]
  by (simp add: repaired_def pts_deltas_def decreasing_pairs_def pts_of_def example_defs)

text \<open>
  C4 as stated fails on two frames with the same timestamp: the pair is non-increasing,
  the difference 0 is assigned, and nothing is printed, since the test is
  \<^verbatim>\<open>next_pts < curr_pts\<close>.
\<close>

theorem repair_pass_equal_pts_counterexample:
  "fix_durations exact
     [example_frame 1 ''I'' (1 / 2) (PStr ''NaN''),
      example_frame 2 ''Non-I'' (1 / 2) (PStr ''NaN'')]
   = Inr ([example_frame 1 ''I'' (1 / 2) (PFloat (Num 0)),
           example_frame 2 ''Non-I'' (1 / 2) (PFloat (Num 0))],
          [])"
  by (simp add: fix_durations_def example_defs)

section \<open>The chunk bitrate\<close>

text \<open>
  C5, as the code has it. \<^verbatim>\<open>_bitrate_for_frame_list\<close> divides without a test of
  its own: on a chunk of at least two frames whose timestamp differences sum to zero the
  division raises \<^verbatim>\<open>ZeroDivisionError\<close>, and no bitrate is returned.
\<close>

theorem zero_denominator:
  assumes "1 < length frame_list" and "sum_delta_time py frame_list = Inr (Num 0)"
  shows "bitrate_for_frame_list py frame_list = Inl ZeroDivisionError"
  using assms by (simp add: bitrate_for_frame_list_def)

theorem zero_denominator_witness:
  "bitrate_for_frame_list exact
     [example_frame 1 ''I'' 0 (PFloat (Num (1 / 25))),
      example_frame 2 ''Non-I'' 1 (PFloat (Num (1 / 25))),
      example_frame 3 ''Non-I'' 0 (PFloat (Num (1 / 25)))] = Inl ZeroDivisionError"
  using zero_denominator [of
      "[example_frame 1 ''I'' 0 (PFloat (Num (1 / 25))),
        example_frame 2 ''Non-I'' 1 (PFloat (Num (1 / 25))),
        example_frame 3 ''Non-I'' 0 (PFloat (Num (1 / 25)))]" exact]
  by (simp add: sum_delta_time_def py_float_def fl_builtin_sum_def fl_sum_by_def example_defs)

text \<open>
  C5 as stated fails: the errors the program raises on purpose are
  \<^verbatim>\<open>print_stderr(...); sys.exit(1)\<close>, and a sentinel would be a returned value. On
  two frames with one timestamp the result is neither: it is the exception of the
  division itself.
\<close>

theorem zero_denominator_unguarded_counterexample:
  "bitrate_for_frame_list exact
     [example_frame 1 ''I'' 1 (PFloat (Num (1 / 25))),
      example_frame 2 ''Non-I'' 1 (PFloat (Num (1 / 25)))] = Inl ZeroDivisionError \<and>
   fl_truediv exact (Num (of_int ((1000 + 1000) * 8) / 1000)) (Num 0) = Inl ZeroDivisionError \<and>
   (\<forall>code msg.
      bitrate_for_frame_list exact
        [example_frame 1 ''I'' 1 (PFloat (Num (1 / 25))),
         example_frame 2 ''Non-I'' 1 (PFloat (Num (1 / 25)))] \<noteq> Inl (SystemExit code msg)) \<and>
   (\<forall>v.
      bitrate_for_frame_list exact
        [example_frame 1 ''I'' 1 (PFloat (Num (1 / 25))),
         example_frame 2 ''Non-I'' 1 (PFloat (Num (1 / 25)))] \<noteq> Inr v)"
  by (simp add: bitrate_for_frame_list_def sum_delta_time_def py_float_def fl_builtin_sum_def
      fl_sum_by_def example_defs)

section \<open>The statistics\<close>

subsection \<open>Which errors the steps raise, and what they leave unchanged\<close>

lemma as_floats_error: "mapE as_float vs = Inl e \<Longrightarrow> e = TypeError"
proof (induction vs)
  case Nil
  then show ?case by simp
next
  case (Cons v vs)
  then show ?case by (cases v; cases "mapE as_float vs") auto
qed

lemma py_sum_error: "py_sum py vs = Inl e \<Longrightarrow> e = TypeError"
  by (cases "mapE as_float vs") (auto simp: py_sum_def dest: as_floats_error)

lemma fl_truediv_error: "fl_truediv py a b = Inl e \<Longrightarrow> e = ZeroDivisionError"
  by (cases b) (auto split: if_splits fl.splits)

lemma calculate_duration_Inl: "calculate_duration py s = Inl e \<Longrightarrow> e = TypeError"
  by (cases "py_sum py (map f_duration (self_frames s))")
    (auto simp: calculate_duration_def dest: py_sum_error)

lemma calculate_duration_Inr:
  "calculate_duration py s = Inr t \<Longrightarrow>
   \<exists>x. py_sum py (map f_duration (self_frames s)) = Inr x \<and> t = s\<lparr>self_duration := fl_round x 2\<rparr>"
  by (auto simp: calculate_duration_def bindE_eq_Inr)

lemma calculate_fps_Inl: "calculate_fps py s = Inl e \<Longrightarrow> e = ZeroDivisionError"
  by (cases "fl_truediv py (Num (of_nat (length (self_frames s)))) (self_duration s)")
    (auto simp: calculate_fps_def dest: fl_truediv_error)

lemma calculate_fps_Inr: "calculate_fps py s = Inr t \<Longrightarrow> \<exists>x. t = s\<lparr>self_fps := x\<rparr>"
  by (auto simp: calculate_fps_def bindE_eq_Inr)

lemma calculate_frame_sizes_Inr:
  "calculate_frame_sizes py info s = Inr t \<Longrightarrow>
   self_rounding_factor t = self_rounding_factor s \<and> self_chunks t = self_chunks s"
  by (auto simp: calculate_frame_sizes_def bindE_eq_Inr Let_def split: if_splits)

lemma map_sum_bindE: "map_sum id g (bindE m f) = bindE m (\<lambda>x. map_sum id g (f x))"
  by (cases m) simp_all

lemma collect_chunks_cached:
  "self_chunks s \<noteq> [] \<Longrightarrow> collect_chunks py s = Inr (self_chunks s, s)"
  by (simp add: collect_chunks_def)

text \<open>
  The list that \<^verbatim>\<open>_collect_chunks\<close> returns is a function of the cache, the
  configuration and the frames.
\<close>

lemma collect_chunks_same_series:
  assumes "self_chunks t = self_chunks s" and "self_aggregation t = self_aggregation s"
    and "self_chunk_size t = self_chunk_size s" and "self_frames t = self_frames s"
  shows "map_sum id fst (collect_chunks py t) = map_sum id fst (collect_chunks py s)"
  using assms
  by (simp add: collect_chunks_def aggregation_chunks_def Let_def map_sum_bindE)

lemma collect_chunks_Inr:
  assumes "collect_chunks py s = Inr (c, t)"
  shows "self_chunks t = c" and "self_frames t = self_frames s"
    and "self_duration t = self_duration s" and "self_max_bitrate t = self_max_bitrate s"
    and "self_rounding_factor t = self_rounding_factor s"
  using assms
  by (auto simp: collect_chunks_def bindE_eq_Inr Let_def split: if_splits)

lemma calculate_max_min_bitrate_Inr:
  assumes "calculate_max_min_bitrate py s = Inr t"
  shows "self_chunks t \<noteq> []" and "py_max (self_chunks t) = Inr (self_max_bitrate t)"
    and "self_frames t = self_frames s" and "self_duration t = self_duration s"
    and "self_rounding_factor t = self_rounding_factor s"
proof -
  from assms obtain c1 s1 mx where c1: "collect_chunks py s = Inr (c1, s1)"
    and mx: "py_max c1 = Inr mx"
    and rest: "bindE (collect_chunks py (s1\<lparr>self_max_bitrate := mx\<rparr>)) (\<lambda>(c2, s2).
                 bindE (py_min c2) (\<lambda>mn. Inr (s2\<lparr>self_min_bitrate := mn\<rparr>))) = Inr t"
    by (auto simp: calculate_max_min_bitrate_def bindE_eq_Inr)
  from mx have ne: "c1 \<noteq> []" by auto
  note s1 = collect_chunks_Inr [OF c1]
  have "collect_chunks py (s1\<lparr>self_max_bitrate := mx\<rparr>) = Inr (c1, s1\<lparr>self_max_bitrate := mx\<rparr>)"
    using collect_chunks_cached [of "s1\<lparr>self_max_bitrate := mx\<rparr>" py] ne s1(1) by simp
  with rest obtain mn where t: "t = s1\<lparr>self_max_bitrate := mx, self_min_bitrate := mn\<rparr>"
    by (auto simp: bindE_eq_Inr)
  show "self_chunks t \<noteq> []" using t ne s1(1) by simp
  show "py_max (self_chunks t) = Inr (self_max_bitrate t)" using t mx s1(1) by simp
  show "self_frames t = self_frames s" using t s1(2) by simp
  show "self_duration t = self_duration s" using t s1(3) by simp
  show "self_rounding_factor t = self_rounding_factor s" using t s1(5) by simp
qed

lemma assemble_bitrate_statistics_Inr:
  assumes "assemble_bitrate_statistics py s = Inr t" and "self_chunks s \<noteq> []"
  shows "\<exists>avg v fct r.
           fl_truediv py (int_truediv py (sum_list (map f_size (self_frames s)) * 8) 1000)
             (self_duration s) = Inr avg \<and>
           np_mean py (self_chunks s) = Inr v \<and>
           py_truediv py (self_max_bitrate s) avg = Inr fct \<and>
           self_avg_bitrate t = Some avg \<and>
           self_avg_bitrate_over_chunks t = Some v \<and>
           self_max_bitrate_factor t = Some fct \<and>
           self_max_bitrate t = self_max_bitrate s \<and>
           self_chunks t = self_chunks s \<and>
           self_frames t = self_frames s \<and>
           self_bitrate_stats t = Some r \<and>
           ret_duration r = fl_round (self_duration s) (self_rounding_factor s)"
  using assms
  by (auto simp: assemble_bitrate_statistics_def bindE_eq_Inr collect_chunks_cached Let_def)

subsection \<open>An empty chunk series\<close>

text \<open>
  C6. When the normalizer has returned and no chunk has more than one frame, so that
  \<^verbatim>\<open>_collect_chunks\<close> returns the empty list, \<^verbatim>\<open>calculate_statistics\<close> raises and
  returns no record: \<^verbatim>\<open>max()\<close> of the empty list raises \<^verbatim>\<open>ValueError\<close>, unless the
  sum of the durations or the frame rate has raised before.
\<close>

theorem empty_chunk_series_fails:
  assumes "calculate_frame_sizes py info s = Inr s1"
    and "collect_chunks py s1 = Inr ([], s1')"
  shows "\<exists>e. calculate_statistics py info s = Inl e \<and>
             e \<in> {TypeError, ZeroDivisionError, ValueError}"
proof (cases "calculate_duration py s1")
  case (Inl e)
  then show ?thesis
    using assms(1) calculate_duration_Inl [OF Inl] by (simp add: calculate_statistics_def)
next
  case s2: (Inr s2)
  show ?thesis
  proof (cases "calculate_fps py s2")
    case (Inl e)
    then show ?thesis
      using assms(1) s2 calculate_fps_Inl [OF Inl] by (simp add: calculate_statistics_def)
  next
    case s3: (Inr s3)
    from calculate_duration_Inr [OF s2] calculate_fps_Inr [OF s3]
    obtain x y where "s3 = s1\<lparr>self_duration := x, self_fps := y\<rparr>" by auto
    then have "map_sum id fst (collect_chunks py s3) = map_sum id fst (collect_chunks py s1)"
      by (intro collect_chunks_same_series) simp_all
    with assms(2) obtain t where "collect_chunks py s3 = Inr ([], t)"
      by (cases "collect_chunks py s3") auto
    then have "calculate_max_min_bitrate py s3 = Inl ValueError"
      by (simp add: calculate_max_min_bitrate_def)
    then show ?thesis
      using assms(1) s2 s3 by (simp add: calculate_statistics_def)
  qed
qed

theorem empty_chunk_series_fails_witness:
  "\<exists>e. calculate_statistics exact
          [example_packet ''K_'' ''0.0'' (Some ''0.5'')] (example_stats ''time'' (Num 1)) = Inl e \<and>
        e \<in> {TypeError, ZeroDivisionError, ValueError}"
proof -
  have "calculate_frame_sizes exact
          [example_packet ''K_'' ''0.0'' (Some ''0.5'')] (example_stats ''time'' (Num 1))
        = Inr ((example_stats ''time'' (Num 1))
                 \<lparr>self_frames := [example_frame 1 ''I'' 0 (PFloat (Num (1 / 2)))]\<rparr>)"
    by (simp add: run_defs parse_defs example_defs)
  moreover have "collect_chunks exact ((example_stats ''time'' (Num 1))
                 \<lparr>self_frames := [example_frame 1 ''I'' 0 (PFloat (Num (1 / 2)))]\<rparr>)
        = Inr ([], (example_stats ''time'' (Num 1))
                 \<lparr>self_frames := [example_frame 1 ''I'' 0 (PFloat (Num (1 / 2)))]\<rparr>)"
    by (simp add: run_defs example_defs)
  ultimately show ?thesis by (rule empty_chunk_series_fails)
qed

subsection \<open>A total duration of zero\<close>

text \<open>
  C10. When the rounded sum of the durations is zero, the frame rate divides by it and
  \<^verbatim>\<open>calculate_statistics\<close> ends in \<^verbatim>\<open>ZeroDivisionError\<close>; the average bitrate of
  \<^verbatim>\<open>_assemble_bitrate_statistics\<close> divides by the same number and raises alike.
\<close>

theorem zero_duration_fails:
  assumes "calculate_frame_sizes py info s = Inr s1"
    and "calculate_duration py s1 = Inr s2"
    and "self_duration s2 = Num 0"
  shows "calculate_statistics py info s = Inl ZeroDivisionError \<and>
         calculate_fps py s2 = Inl ZeroDivisionError \<and>
         assemble_bitrate_statistics py s2 = Inl ZeroDivisionError"
  using assms
  by (simp add: calculate_statistics_def calculate_fps_def assemble_bitrate_statistics_def)

theorem zero_duration_fails_witness:
  "calculate_statistics exact
     [example_packet ''K_'' ''0.0'' (Some ''0.001''),
      example_packet ''__'' ''0.5'' (Some ''0.001'')]
     (example_stats ''time'' (Num 1)) = Inl ZeroDivisionError"
proof -
  let ?s1 = "(example_stats ''time'' (Num 1))
               \<lparr>self_frames := [example_frame 1 ''I'' 0 (PFloat (Num (1 / 1000))),
                                example_frame 2 ''Non-I'' (1 / 2) (PFloat (Num (1 / 1000)))]\<rparr>"
  have r: "round_half_even (1 / 5) = 0"
    by (rule round_half_even_near) simp_all
  have a: "calculate_frame_sizes exact
          [example_packet ''K_'' ''0.0'' (Some ''0.001''),
           example_packet ''__'' ''0.5'' (Some ''0.001'')]
          (example_stats ''time'' (Num 1)) = Inr ?s1"
    by (simp add: run_defs parse_defs example_defs)
  have b: "calculate_duration exact ?s1 = Inr (?s1\<lparr>self_duration := Num 0\<rparr>)"
    by (simp add: calculate_duration_def py_sum_def fl_builtin_sum_def fl_sum_by_def
        example_defs r)
  have c: "self_duration (?s1\<lparr>self_duration := Num 0\<rparr>) = Num 0"
    by simp
  from zero_duration_fails [OF a b c] show ?thesis by simp
qed

subsection \<open>The maximum of a series of numbers\<close>




subsection \<open>The factor of the maximum over the average\<close>




subsection \<open>The duration of the record\<close>

text \<open>
  C8 as stated fails. Two packets with a declared duration of 0.078125 each: the sum is
  0.15625, which is 0.156 at three places, and the record holds 0.16.
\<close>

theorem duration_two_places_counterexample:
  "map_sum id (\<lambda>s. (map f_duration (self_frames s),
                     map_option ret_duration (self_bitrate_stats s)))
     (calculate_statistics exact
        [example_packet ''K_'' ''0.0'' (Some ''0.078125''),
         example_packet ''__'' ''0.5'' (Some ''0.078125'')]
        (example_stats ''time'' (Num 1)))
   = Inr ([PFloat (Num (5 / 64)), PFloat (Num (5 / 64))], Some (Num (4 / 25))) \<and>
   py_sum exact [PFloat (Num (5 / 64)), PFloat (Num (5 / 64))] = Inr (Num (5 / 32)) \<and>
   fl_round (Num (5 / 32)) 3 = Num (39 / 250) \<and>
   Num (39 / 250) \<noteq> Num (4 / 25)"
proof -
  have r2: "round_half_even (125 / 8) = 16"
    by (rule round_half_even_near) simp_all
  have r3: "round_half_even (625 / 4) = 156"
    by (rule round_half_even_near) simp_all
  have r160: "round_half_even 160 = 160" and r12500: "round_half_even 12500 = 12500"
    and r100000: "round_half_even 100000 = 100000" and r32000: "round_half_even 32000 = 32000"
    and r320: "round_half_even 320 = 320"
    using round_half_even_of_int [of 160] round_half_even_of_int [of 12500]
      round_half_even_of_int [of 100000] round_half_even_of_int [of 32000]
      round_half_even_of_int [of 320]
    by simp_all
  show ?thesis
    by (simp add: run_defs parse_defs example_defs r2 r3 r160 r12500 r100000 r32000 r320)
qed

text \<open>
  C8, as the code has it. \<^verbatim>\<open>_calculate_duration\<close> rounds the sum of the durations to
  two places, and the record rounds that number once more, to \<^verbatim>\<open>rounding_factor\<close> = 3
  places, which changes nothing: the duration of the record is the sum at two places.
\<close>

theorem summary_duration:
  assumes "calculate_statistics py info s = Inr s'"
    and "self_rounding_factor s = 3"
  shows "\<exists>r t. self_bitrate_stats s' = Some r \<and>
               py_sum py (map f_duration (self_frames s')) = Inr t \<and>
               ret_duration r = fl_round t 2"
proof -
  from assms(1) obtain s1 s2 s3 s4
    where fs: "calculate_frame_sizes py info s = Inr s1"
      and du: "calculate_duration py s1 = Inr s2"
      and fp: "calculate_fps py s2 = Inr s3"
      and mm: "calculate_max_min_bitrate py s3 = Inr s4"
      and asm: "assemble_bitrate_statistics py s4 = Inr s'"
    by (auto simp: calculate_statistics_def bindE_eq_Inr)
  from calculate_duration_Inr [OF du] obtain t
    where t: "py_sum py (map f_duration (self_frames s1)) = Inr t"
      and s2: "s2 = s1\<lparr>self_duration := fl_round t 2\<rparr>"
    by blast
  from calculate_fps_Inr [OF fp] obtain x where s3: "s3 = s2\<lparr>self_fps := x\<rparr>"
    by blast
  note s4 = calculate_max_min_bitrate_Inr [OF mm]
  from assemble_bitrate_statistics_Inr [OF asm s4(1)] obtain r
    where r: "self_bitrate_stats s' = Some r"
      and d: "ret_duration r = fl_round (self_duration s4) (self_rounding_factor s4)"
      and fr: "self_frames s' = self_frames s4"
    by blast
  have "self_rounding_factor s4 = 3"
    using s4(5) s3 s2 calculate_frame_sizes_Inr [OF fs] assms(2) by simp
  moreover have "self_duration s4 = fl_round t 2" using s4(4) s3 s2 by simp
  ultimately have "ret_duration r = fl_round t 2"
    using d fl_round_again [of 2 3 t] by simp
  moreover have "self_frames s' = self_frames s1" using fr s4(3) s3 s2 by simp
  ultimately show ?thesis using r t by simp
qed

theorem summary_duration_witness:
  "\<exists>s' r. calculate_statistics exact
            [example_packet ''K_'' ''0.0'' (Some ''0.078125''),
             example_packet ''__'' ''0.25'' (Some ''0.078125'')]
            (example_stats ''time'' (Num 1)) = Inr s' \<and>
          self_bitrate_stats s' = Some r \<and>
          map f_duration (self_frames s') = [PFloat (Num (5 / 64)), PFloat (Num (5 / 64))] \<and>
          ret_duration r = fl_round (Num (5 / 32)) 2"
proof -
  let ?run = "calculate_statistics exact
            [example_packet ''K_'' ''0.0'' (Some ''0.078125''),
             example_packet ''__'' ''0.25'' (Some ''0.078125'')]
            (example_stats ''time'' (Num 1))"
  have r2: "round_half_even (125 / 8) = 16"
    by (rule round_half_even_near) simp_all
  have "map_sum id (\<lambda>s. map f_duration (self_frames s)) ?run
          = Inr [PFloat (Num (5 / 64)), PFloat (Num (5 / 64))]"
    by (simp add: run_defs parse_defs example_defs r2)
  then obtain s' where run: "?run = Inr s'"
    and fr: "map f_duration (self_frames s') = [PFloat (Num (5 / 64)), PFloat (Num (5 / 64))]"
    by (cases ?run) auto
  have rf: "self_rounding_factor (example_stats ''time'' (Num 1)) = 3"
    by (simp add: example_defs)
  from summary_duration [OF run rf] obtain r t
    where "self_bitrate_stats s' = Some r"
      and "py_sum exact (map f_duration (self_frames s')) = Inr t"
      and "ret_duration r = fl_round t 2"
    by blast
  then show ?thesis using run fr
    by (auto simp: py_sum_def fl_builtin_sum_def fl_sum_by_def exact_def)
qed

end
